theory Spec2Isabelle
  imports Main
begin

text \<open>
  A model of the authentication layer of the application: the helpers of
  \<open>auth/_helpers.js\<close>, the strategy of \<open>auth/local.js\<close>, the session functions of
  \<open>auth/passport.js\<close>, the migration of the \<open>users\<close> table, and the routes of
  \<open>routes/auth.js\<close> and \<open>routes/user.js\<close>, as the repository and its README give
  them. Promise chains are written out as the sequence of callbacks that run; Express,
  Passport, Knex and bcrypt appear as far as the code relies on them.
\<close>

section \<open>Runtime values\<close>

text \<open>
  Errors of the JavaScript runtime and of the libraries, as values: a thrown exception or
  a rejected promise carries one of them. \<open>message\<close> is the \<open>err.message\<close> the
  handlers read; the texts of the runtime's own errors are engine specific and no
  statement below depends on them.
\<close>

datatype js_error =
    TypeError string
  | DbError string
  | Rejection string
  | JsError string
  | HeadersSent

fun message :: "js_error \<Rightarrow> string" where
  "message (TypeError m) = m"
| "message (DbError m) = m"
| "message (Rejection m) = m"
| "message (JsError m) = m"
| "message HeadersSent = ''Cannot set headers after they are sent''"

text \<open>
  The values \<open>bodyParser.json()\<close> and the query parser put into \<open>req.body\<close> and
  \<open>req.query\<close>: strings, numbers, booleans, \<open>null\<close>, and arrays and objects. Of a
  number the handlers read only whether it is zero, so integers stand for all numbers.
  Of an array or object they read only \<open>.length < 6\<close>, and \<open>JObject\<close> carries what that
  comparison gives. A field that is missing is \<open>undefined\<close>, here \<open>None\<close>.
\<close>

datatype json = JString string | JNumber int | JBool bool | JNull | JObject bool

fun truthy :: "json \<Rightarrow> bool" where
  "truthy (JString s) = (s \<noteq> [])"
| "truthy (JNumber n) = (n \<noteq> 0)"
| "truthy (JBool b) = b"
| "truthy JNull = False"
| "truthy (JObject _) = True"

fun typeof :: "json option \<Rightarrow> string" where
  "typeof None = ''undefined''"
| "typeof (Some (JString _)) = ''string''"
| "typeof (Some (JNumber _)) = ''number''"
| "typeof (Some (JBool _)) = ''boolean''"
| "typeof (Some JNull) = ''object''"
| "typeof (Some (JObject _)) = ''object''"

section \<open>The users table\<close>

text \<open>
  The migration creates \<open>users\<close> with an auto-increment \<open>id\<close>, a unique non-null
  \<open>username\<close>, a non-null \<open>password\<close>, a non-null \<open>admin\<close> defaulting to false, and
  timestamps (which no handler reads and the model leaves out).
\<close>

record users_row =
  user_id :: nat
  username :: string
  password :: string
  admin :: bool

section \<open>Requests\<close>

text \<open>
  A request is its JSON body, its query string as Express parses it, and \<open>req.user\<close>,
  the user Passport resolved from the session.
\<close>

record req =
  body :: "string \<rightharpoonup> json"
  query :: "string \<rightharpoonup> json"
  user :: "users_row option"

text \<open>
  What a JavaScript function can be handed where the code expects a name, a password or
  a callback: the request object, a value out of the body or the query, or the
  strategy's \<open>verified\<close> function.
\<close>

datatype jsval = JReq req | JJson json | JVerified

fun typeof_val :: "jsval \<Rightarrow> string" where
  "typeof_val (JReq _) = ''object''"
| "typeof_val (JJson v) = typeof (Some v)"
| "typeof_val JVerified = ''function''"

section \<open>The database\<close>

text \<open>
  The database behind \<open>knex\<close>: the rows in insertion order, the next value of the id
  sequence, and whether the connection works (a query on a broken connection is a
  rejected promise). Two things the model leaves open: \<open>where_other\<close> is what the
  database answers to a where-clause whose value is not a string, and \<open>text_of\<close> is the
  text the driver stores for a bound value that is not a string.
\<close>

record knex =
  users :: "users_row list"
  next_id :: nat
  online :: bool
  where_other :: "jsval \<Rightarrow> js_error + users_row option"
  text_of :: "json \<Rightarrow> string"

text \<open>\<open>knex('users').where({username}).first()\<close> and \<open>knex('users').where({id}).first()\<close>.\<close>

definition where_username_first :: "knex \<Rightarrow> string \<Rightarrow> js_error + users_row option" where
  "where_username_first k name =
     (if online k then Inr (find (\<lambda>r. username r = name) (users k))
      else Inl (DbError ''connection refused''))"

definition where_id_first :: "knex \<Rightarrow> nat \<Rightarrow> js_error + users_row option" where
  "where_id_first k i =
     (if online k then Inr (find (\<lambda>r. user_id r = i) (users k))
      else Inl (DbError ''connection refused''))"

text \<open>The text a varchar column stores for a bound value: a string is stored as it is.\<close>

definition column_text :: "knex \<Rightarrow> json \<Rightarrow> string" where
  "column_text k v = (case v of JString s \<Rightarrow> s | _ \<Rightarrow> text_of k v)"

text \<open>
  \<open>knex('users').insert({...}).returning('*')\<close>. The inserted object names the columns
  it sets; \<open>admin\<close> is optional and takes the migration's default when it is left out.
  The sequence advances also when the unique constraint on \<open>username\<close> rejects the row.
\<close>

record insert_cols =
  ins_username :: string
  ins_password :: string
  ins_admin :: "bool option"

definition insert_returning :: "knex \<Rightarrow> insert_cols \<Rightarrow> (js_error + users_row list) \<times> knex" where
  "insert_returning k c =
     (if online k then
        (case find (\<lambda>r. username r = ins_username c) (users k) of
           Some _ \<Rightarrow> (Inl (DbError ''duplicate key value violates unique constraint''),
                      k\<lparr>next_id := Suc (next_id k)\<rparr>)
         | None \<Rightarrow>
            (let row = \<lparr>user_id = next_id k, username = ins_username c,
                        password = ins_password c,
                        admin = (case ins_admin c of None \<Rightarrow> False | Some a \<Rightarrow> a)\<rparr>
             in (Inr [row], k\<lparr>users := users k @ [row], next_id := Suc (next_id k)\<rparr>)))
      else (Inl (DbError ''connection refused''), k))"

section \<open>Password hashing\<close>

text \<open>
  \<open>bcryptjs\<close> is a library outside the repository: its two functions are parameters of
  the model. The salt that \<open>genSaltSync()\<close> draws is an argument of the handler that
  draws it.
\<close>

record bcrypt =
  hashSync :: "string \<Rightarrow> string \<Rightarrow> string"
  compareSync :: "string \<Rightarrow> string \<Rightarrow> bool"

definition comparePass :: "bcrypt \<Rightarrow> string \<Rightarrow> string \<Rightarrow> bool" where
  "comparePass bc userPassword databasePassword = compareSync bc userPassword databasePassword"

section \<open>Responses and the state a request runs in\<close>

text \<open>
  A response is what \<open>res.status(code).json({status: msg})\<close> sends. The world a request
  runs in holds the database, the user id Passport keeps in the session, and the
  response already sent for this request, if any.
\<close>

record response =
  statusCode :: nat
  status :: string

record world =
  db :: knex
  session :: "nat option"
  sent :: "response option"

text \<open>
  \<open>res.status(code).json({status: msg})\<close>: the first call sends the response; on a
  response already sent Express throws. The result is the exception, if any, and the
  world after the call.
\<close>

definition status_json :: "nat \<Rightarrow> string \<Rightarrow> world \<Rightarrow> js_error option \<times> world" where
  "status_json c m w =
     (case sent w of
        None \<Rightarrow> (None, w\<lparr>sent := Some \<lparr>statusCode = c, status = m\<rparr>\<rparr>)
      | Some _ \<Rightarrow> (Some HeadersSent, w))"

definition handleResponse :: "world \<Rightarrow> nat \<Rightarrow> string \<Rightarrow> js_error option \<times> world" where
  "handleResponse w c statusMsg = status_json c statusMsg w"

text \<open>
  How a middleware or handler leaves: it called \<open>next()\<close>, it returned without calling
  it, it threw synchronously (Express forwards the exception to the error middleware), or
  its promise was rejected with nobody handling the rejection.
\<close>

datatype flow = Next | End | Throw js_error | Rejected js_error

section \<open>Access gates\<close>

text \<open>\<open>loginRequired\<close>, \<open>loginRedirect\<close> and \<open>adminRequired\<close> of \<open>auth/_helpers.js\<close>.\<close>

definition loginRequired :: "req \<Rightarrow> world \<Rightarrow> flow \<times> world" where
  "loginRequired rq w =
     (case user rq of
        None \<Rightarrow> (case status_json 401 ''Please log in'' w of
                   (None, w') \<Rightarrow> (End, w')
                 | (Some e, w') \<Rightarrow> (Throw e, w'))
      | Some _ \<Rightarrow> (Next, w))"

definition loginRedirect :: "req \<Rightarrow> world \<Rightarrow> flow \<times> world" where
  "loginRedirect rq w =
     (case user rq of
        Some _ \<Rightarrow> (case status_json 401 ''You are already logged in'' w of
                     (None, w') \<Rightarrow> (End, w')
                   | (Some e, w') \<Rightarrow> (Throw e, w'))
      | None \<Rightarrow> (Next, w))"

text \<open>
  \<open>adminRequired\<close> writes the 401 of an anonymous caller without returning, and then
  reads \<open>req.user.username\<close>, which throws on the missing user before any promise
  exists. With a user it queries the row by username; in the \<open>then\<close> callback it writes
  the 401 of a non-admin, again without returning, and calls \<open>next()\<close>. A missing row
  makes \<open>user.admin\<close> throw inside the callback. The \<open>catch\<close> callback answers every
  rejection with a 500.
\<close>

definition adminRequired :: "req \<Rightarrow> world \<Rightarrow> flow \<times> world" where
  "adminRequired rq w =
     (case (case user rq of None \<Rightarrow> status_json 401 ''Please log in'' w
                          | Some _ \<Rightarrow> (None, w)) of
        (Some e, w1) \<Rightarrow> (Throw e, w1)
      | (None, w1) \<Rightarrow>
         (case user rq of
            None \<Rightarrow> (Throw (TypeError ''Cannot read property username of undefined''), w1)
          | Some u \<Rightarrow>
             (case (case where_username_first (db w1) (username u) of
                      Inl e \<Rightarrow> (Some e, w1)
                    | Inr None \<Rightarrow>
                        (Some (TypeError ''Cannot read property admin of undefined''), w1)
                    | Inr (Some row) \<Rightarrow>
                        (if admin row then (None, w1)
                         else status_json 401 ''You are not authorized'' w1)) of
                (None, w2) \<Rightarrow> (Next, w2)
              | (Some e, w2) \<Rightarrow>
                 (case status_json 500 ''Something bad happened'' w2 of
                    (None, w3) \<Rightarrow> (End, w3)
                  | (Some e', w3) \<Rightarrow> (Rejected e', w3)))))"

text \<open>
  A route with one gate, \<open>router.METHOD(path, gate, handler)\<close>: the handler runs if and
  only if the gate called \<open>next()\<close>, on the world the gate left. The result records
  whether the handler ran, how the last function that ran left, and the final world.
\<close>

record outcome =
  handler_ran :: bool
  left :: flow
  final :: world

definition route ::
  "(req \<Rightarrow> world \<Rightarrow> flow \<times> world) \<Rightarrow> (req \<Rightarrow> world \<Rightarrow> flow \<times> world) \<Rightarrow> req \<Rightarrow> world \<Rightarrow> outcome" where
  "route gate handler rq w =
     (case gate rq w of
        (Next, w') \<Rightarrow> (case handler rq w' of
                        (f, w'') \<Rightarrow> \<lparr>handler_ran = True, left = f, final = w''\<rparr>)
      | (f, w') \<Rightarrow> \<lparr>handler_ran = False, left = f, final = w'\<rparr>)"

section \<open>The user routes\<close>

text \<open>The handlers of \<open>GET /user\<close> and \<open>GET /admin\<close> in \<open>routes/user.js\<close>.\<close>

definition success_handler :: "req \<Rightarrow> world \<Rightarrow> flow \<times> world" where
  "success_handler rq w =
     (case handleResponse w 200 ''success'' of
        (None, w') \<Rightarrow> (End, w')
      | (Some e, w') \<Rightarrow> (Throw e, w'))"

definition get_user :: "req \<Rightarrow> world \<Rightarrow> outcome" where
  "get_user = route loginRequired success_handler"

definition get_admin :: "req \<Rightarrow> world \<Rightarrow> outcome" where
  "get_admin = route adminRequired success_handler"

section \<open>Registration\<close>

text \<open>
  \<open>v.length < 6\<close> for a field \<open>v\<close> of the body: the length of a string counts its code
  units; a number or a boolean has no \<open>length\<close>, and \<open>undefined < 6\<close> is false; reading
  \<open>.length\<close> of \<open>undefined\<close> or \<open>null\<close> throws.
\<close>

fun length_below_6 :: "json option \<Rightarrow> js_error + bool" where
  "length_below_6 None = Inl (TypeError ''Cannot read property length of undefined'')"
| "length_below_6 (Some JNull) = Inl (TypeError ''Cannot read property length of null'')"
| "length_below_6 (Some (JString s)) = Inr (length s < 6)"
| "length_below_6 (Some (JNumber _)) = Inr False"
| "length_below_6 (Some (JBool _)) = Inr False"
| "length_below_6 (Some (JObject b)) = Inr b"

text \<open>
  \<open>handleErrors\<close>: the promise is rejected with the message of the first check that
  fails, the username's before the password's. An exception inside the promise's
  executor rejects the promise too.
\<close>

definition handleErrors :: "req \<Rightarrow> js_error + unit" where
  "handleErrors rq =
     (case length_below_6 (body rq ''username'') of
        Inl e \<Rightarrow> Inl e
      | Inr True \<Rightarrow> Inl (Rejection ''Username must be longer than 6 characters'')
      | Inr False \<Rightarrow>
         (case length_below_6 (body rq ''password'') of
            Inl e \<Rightarrow> Inl e
          | Inr True \<Rightarrow> Inl (Rejection ''Password must be longer than 6 characters'')
          | Inr False \<Rightarrow> Inr ()))"

text \<open>
  \<open>createUser(req, res)\<close>: after \<open>handleErrors\<close> the \<open>then\<close> callback hashes the
  password with a fresh salt (bcrypt throws on a password that is not a string) and
  inserts the username and the hash, nothing else. The \<open>catch\<close> callback answers a
  rejection of either step with a 400 carrying the error's message, and the promise then
  resolves to \<open>undefined\<close> (here \<open>None\<close>); it stays rejected only if writing the 400
  throws. The result is what the returned promise settles to, and the world.
\<close>

definition createUser ::
  "bcrypt \<Rightarrow> string \<Rightarrow> req \<Rightarrow> world \<Rightarrow> (js_error + users_row list option) \<times> world" where
  "createUser bc salt rq w =
     (case (case handleErrors rq of
              Inl e \<Rightarrow> (Inl e, w)
            | Inr _ \<Rightarrow>
               (case body rq ''password'' of
                  Some (JString p) \<Rightarrow>
                    (case body rq ''username'' of
                       None \<Rightarrow> (Inl (DbError ''Undefined binding(s) detected''), w)
                     | Some v \<Rightarrow>
                        (case insert_returning (db w)
                                \<lparr>ins_username = column_text (db w) v,
                                 ins_password = hashSync bc p salt, ins_admin = None\<rparr> of
                           (r, k) \<Rightarrow> (r, w\<lparr>db := k\<rparr>)))
                | other \<Rightarrow>
                    (Inl (JsError (''Illegal arguments: '' @ typeof other @ '', string'')), w))) of
        (Inr rows, w1) \<Rightarrow> (Inr (Some rows), w1)
      | (Inl e, w1) \<Rightarrow>
         (case status_json 400 (message e) w1 of
            (None, w2) \<Rightarrow> (Inr None, w2)
          | (Some e', w2) \<Rightarrow> (Inl e', w2)))"

text \<open>
  \<open>handleLogin(req, user)\<close> wraps \<open>req.login\<close>, which stores the serialized user (its
  id) in the session. The register route calls it as \<open>handleLogin(res, user[0])\<close>: the
  response object has no \<open>login\<close> method, so the call throws in the promise's executor.
\<close>

datatype target = TheReq | TheRes

definition serializeUser :: "users_row \<Rightarrow> nat" where
  "serializeUser u = user_id u"

definition handleLogin :: "target \<Rightarrow> users_row option \<Rightarrow> world \<Rightarrow> js_error + world" where
  "handleLogin t u w =
     (case t of
        TheRes \<Rightarrow> Inl (TypeError ''req.login is not a function'')
      | TheReq \<Rightarrow>
         (case u of
            None \<Rightarrow> Inl (TypeError ''Cannot read property id of undefined'')
          | Some r \<Rightarrow> Inr (w\<lparr>session := Some (serializeUser r)\<rparr>)))"

text \<open>
  The handler of \<open>POST /auth/register\<close>. The first \<open>then\<close> callback reads \<open>user[0]\<close>,
  which throws when \<open>createUser\<close> resolved to \<open>undefined\<close>; it calls \<open>handleLogin\<close>
  without returning its promise, so whether that promise is rejected does not reach the
  chain, and the world changes only if the login succeeded. The second callback answers
  200; the \<open>catch\<close> callback answers any rejection with a 500.
\<close>

definition register_handler :: "bcrypt \<Rightarrow> string \<Rightarrow> req \<Rightarrow> world \<Rightarrow> flow \<times> world" where
  "register_handler bc salt rq w =
     (case (case createUser bc salt rq w of
              (Inl e, w1) \<Rightarrow> (Some e, w1)
            | (Inr None, w1) \<Rightarrow> (Some (TypeError ''Cannot read property 0 of undefined''), w1)
            | (Inr (Some rows), w1) \<Rightarrow>
               (case handleLogin TheRes (case rows of [] \<Rightarrow> None | r # _ \<Rightarrow> Some r) w1 of
                  Inl _ \<Rightarrow> handleResponse w1 200 ''success''
                | Inr w2 \<Rightarrow> handleResponse w2 200 ''success'')) of
        (None, w3) \<Rightarrow> (End, w3)
      | (Some e, w3) \<Rightarrow>
         (case handleResponse w3 500 ''error'' of
            (None, w4) \<Rightarrow> (End, w4)
          | (Some e', w4) \<Rightarrow> (Rejected e', w4)))"

definition post_register :: "bcrypt \<Rightarrow> string \<Rightarrow> req \<Rightarrow> world \<Rightarrow> outcome" where
  "post_register bc salt = route loginRedirect (register_handler bc salt)"

section \<open>The local strategy\<close>

text \<open>
  The options a \<open>LocalStrategy\<close> is constructed with. \<open>auth/local.js\<close> constructs it with
  \<open>options_local\<close>; the tutorial's text constructs it with \<open>{}\<close>, here \<open>options_empty\<close>.
\<close>

record options =
  usernameField :: "string option"
  passwordField :: "string option"
  passReqToCallback :: bool

definition options_local :: options where
  "options_local =
     \<lparr>usernameField = Some ''email'', passwordField = Some ''password'',
      passReqToCallback = True\<rparr>"

definition options_empty :: options where
  "options_empty = \<lparr>usernameField = None, passwordField = None, passReqToCallback = False\<rparr>"

text \<open>
  The verify callback is the arrow function \<open>(username, password, done) => ...\<close>.
  JavaScript binds its three parameters to the first three arguments of the call,
  whatever they are: a request object, a value of the body or the query, or the
  strategy's \<open>verified\<close> function. Calling \<open>done\<close> reports \<open>done(err, user)\<close> when
  \<open>done\<close> is that function and throws a TypeError when it is anything else. The user
  a \<open>done\<close> is called with is a row, \<open>false\<close>, \<open>null\<close>, or \<open>undefined\<close> (also when
  the argument is left out).
\<close>

datatype user_arg = UserRow users_row | UserFalse | UserNull | UserUndefined

datatype done_call = Done "js_error option" user_arg

datatype verify_result = Called done_call | Unhandled js_error

definition call_done :: "jsval \<Rightarrow> done_call \<Rightarrow> js_error + done_call" where
  "call_done d args =
     (case d of JVerified \<Rightarrow> Inr args | _ \<Rightarrow> Inl (TypeError ''done is not a function''))"

text \<open>
  The callback of \<open>auth/local.js\<close>: the query by \<open>username\<close>; in the \<open>then\<close> callback
  \<open>done(null, false)\<close> for no row, \<open>done(null, false)\<close> when \<open>comparePass\<close> fails and
  \<open>done(null, user)\<close> when it holds (bcrypt throws on a password that is not a string);
  in the \<open>catch\<close> callback \<open>done(err)\<close>. An exception of the \<open>catch\<close> callback leaves
  the promise rejected and \<open>verified\<close> never called.
\<close>

definition verify :: "bcrypt \<Rightarrow> knex \<Rightarrow> jsval \<Rightarrow> jsval \<Rightarrow> jsval \<Rightarrow> verify_result" where
  "verify bc k username_arg password_arg done =
     (case (case (case username_arg of
                    JJson (JString name) \<Rightarrow> where_username_first k name
                  | other \<Rightarrow> (if online k then where_other k other
                              else Inl (DbError ''connection refused''))) of
              Inl e \<Rightarrow> Inl e
            | Inr None \<Rightarrow> call_done done (Done None UserFalse)
            | Inr (Some row) \<Rightarrow>
               (case password_arg of
                  JJson (JString pw) \<Rightarrow>
                    (if comparePass bc pw (password row)
                     then call_done done (Done None (UserRow row))
                     else call_done done (Done None UserFalse))
                | other \<Rightarrow>
                    Inl (JsError (''Illegal arguments: '' @ typeof_val other @ '', string'')))) of
        Inr c \<Rightarrow> Called c
      | Inl e \<Rightarrow>
         (case call_done done (Done (Some e) UserUndefined) of
            Inr c \<Rightarrow> Called c
          | Inl e' \<Rightarrow> Unhandled e'))"

text \<open>
  \<open>passport-local\<close> (version 1.0.0, a library outside the repository), as far as the
  login route relies on it. Its \<open>lookup\<close> reads a field of the body or of the query:
  a string, a number or a boolean is returned as it is, and a missing field, \<open>null\<close>, an
  array or an object gives \<open>null\<close> (the field names of the two option sets have no
  brackets, so there is no path to follow into an object). A credential is
  \<open>lookup(req.body, field) || lookup(req.query, field)\<close>, with the fields the options
  name (\<open>username\<close> and \<open>password\<close> when they name none). A credential that is not
  truthy fails the attempt, with the message \<open>Missing credentials\<close>, before the callback
  is called. The strategy calls the callback with \<open>(req, username, password, verified)\<close>
  when \<open>passReqToCallback\<close> is set and with \<open>(username, password, verified)\<close> otherwise.
  \<open>verified(err, user)\<close> turns an error into \<open>error\<close>, a user that is not a row into
  \<open>fail\<close> and a row into \<open>success\<close>. When \<open>verified\<close> is never called the attempt stays
  pending.
\<close>

datatype attempt = Success users_row | Fail "string option" | Failure js_error | Pending js_error

definition field_or :: "string option \<Rightarrow> string \<Rightarrow> string" where
  "field_or f d = (case f of None \<Rightarrow> d | Some n \<Rightarrow> (if n = [] then d else n))"

definition verified :: "done_call \<Rightarrow> attempt" where
  "verified c =
     (case c of
        Done (Some e) _ \<Rightarrow> Failure e
      | Done None (UserRow u) \<Rightarrow> Success u
      | Done None _ \<Rightarrow> Fail None)"

definition lookup :: "(string \<rightharpoonup> json) \<Rightarrow> string \<Rightarrow> json option" where
  "lookup obj field =
     (case obj field of
        Some (JString s) \<Rightarrow> Some (JString s)
      | Some (JNumber n) \<Rightarrow> Some (JNumber n)
      | Some (JBool b) \<Rightarrow> Some (JBool b)
      | _ \<Rightarrow> None)"

definition credential :: "req \<Rightarrow> string \<Rightarrow> json option" where
  "credential rq field =
     (case lookup (body rq) field of
        None \<Rightarrow> lookup (query rq) field
      | Some v \<Rightarrow> (if truthy v then Some v else lookup (query rq) field))"

definition authenticate :: "options \<Rightarrow> bcrypt \<Rightarrow> knex \<Rightarrow> req \<Rightarrow> attempt" where
  "authenticate opts bc k rq =
     (case credential rq (field_or (usernameField opts) ''username'') of
        None \<Rightarrow> Fail (Some ''Missing credentials'')
      | Some u \<Rightarrow>
         (if truthy u then
            (case credential rq (field_or (passwordField opts) ''password'') of
               None \<Rightarrow> Fail (Some ''Missing credentials'')
             | Some p \<Rightarrow>
                (if truthy p then
                   (case (if passReqToCallback opts
                          then verify bc k (JReq rq) (JJson u) (JJson p)
                          else verify bc k (JJson u) (JJson p) JVerified) of
                      Called c \<Rightarrow> verified c
                    | Unhandled e \<Rightarrow> Pending e)
                 else Fail (Some ''Missing credentials'')))
          else Fail (Some ''Missing credentials'')))"

section \<open>Login and logout\<close>

text \<open>
  The callback the login route gives to \<open>passport.authenticate\<close>: three \<open>if\<close>
  statements in a row, none of which returns.
\<close>

definition login_callback ::
  "js_error option \<Rightarrow> users_row option \<Rightarrow> world \<Rightarrow> js_error option \<times> world" where
  "login_callback err usr w =
     (case (case err of None \<Rightarrow> (None, w) | Some _ \<Rightarrow> handleResponse w 500 ''error'') of
        (Some e, w1) \<Rightarrow> (Some e, w1)
      | (None, w1) \<Rightarrow>
         (case (case usr of None \<Rightarrow> handleResponse w1 404 ''User not found''
                          | Some _ \<Rightarrow> (None, w1)) of
            (Some e, w2) \<Rightarrow> (Some e, w2)
          | (None, w2) \<Rightarrow>
             (case usr of None \<Rightarrow> (None, w2) | Some _ \<Rightarrow> handleResponse w2 200 ''success'')))"

text \<open>
  The handler of \<open>POST /auth/login\<close>. With a callback of its own,
  \<open>passport.authenticate\<close> (a library outside the repository) hands the attempt's
  result to the callback as \<open>(err)\<close>, \<open>(null, false)\<close> or \<open>(null, user)\<close> and does
  nothing else; the callback does not call \<open>req.login\<close>, so the session stays as it is.
  A pending attempt never reaches the callback. The callback runs synchronously when the
  credentials are missing, and inside the verify callback's promise otherwise; its only
  exception is the one of a second write, after which no write changes the response.
\<close>

definition login_handler :: "options \<Rightarrow> bcrypt \<Rightarrow> req \<Rightarrow> world \<Rightarrow> flow \<times> world" where
  "login_handler opts bc rq w =
     (case authenticate opts bc (db w) rq of
        Pending e \<Rightarrow> (Rejected e, w)
      | Failure e \<Rightarrow>
         (case login_callback (Some e) None w of
            (None, w') \<Rightarrow> (End, w') | (Some e', w') \<Rightarrow> (Rejected e', w'))
      | Fail (Some _) \<Rightarrow>
         (case login_callback None None w of
            (None, w') \<Rightarrow> (End, w') | (Some e', w') \<Rightarrow> (Throw e', w'))
      | Fail None \<Rightarrow>
         (case login_callback None None w of
            (None, w') \<Rightarrow> (End, w') | (Some e', w') \<Rightarrow> (Rejected e', w'))
      | Success u \<Rightarrow>
         (case login_callback None (Some u) w of
            (None, w') \<Rightarrow> (End, w') | (Some e', w') \<Rightarrow> (Rejected e', w')))"

definition post_login :: "options \<Rightarrow> bcrypt \<Rightarrow> req \<Rightarrow> world \<Rightarrow> outcome" where
  "post_login opts bc = route loginRedirect (login_handler opts bc)"

text \<open>The handler of \<open>GET /auth/logout\<close>: \<open>req.logout()\<close> removes the user from the session.\<close>

definition logout_handler :: "req \<Rightarrow> world \<Rightarrow> flow \<times> world" where
  "logout_handler rq w =
     (case handleResponse (w\<lparr>session := None\<rparr>) 200 ''success'' of
        (None, w') \<Rightarrow> (End, w')
      | (Some e, w') \<Rightarrow> (Throw e, w'))"

definition get_logout :: "req \<Rightarrow> world \<Rightarrow> outcome" where
  "get_logout = route loginRequired logout_handler"

section \<open>The session\<close>

text \<open>
  \<open>deserializeUser\<close> of \<open>auth/passport.js\<close>: the result of \<open>.first()\<close> on the rows
  with the id of the session, as \<open>done(null, user)\<close>, where \<open>user\<close> is \<open>undefined\<close> when
  no row has the id; a rejected query as \<open>done(err, null)\<close>.
\<close>

definition deserializeUser :: "knex \<Rightarrow> nat \<Rightarrow> done_call" where
  "deserializeUser k i =
     (case where_id_first k i of
        Inr (Some u) \<Rightarrow> Done None (UserRow u)
      | Inr None \<Rightarrow> Done None UserUndefined
      | Inl e \<Rightarrow> Done (Some e) UserNull)"

text \<open>
  \<open>passport.session()\<close> (Passport 0.3.2, a library outside the repository), as far as
  the routes rely on it. Without a user id in the session the request goes on with no
  \<open>req.user\<close>. With one, Passport calls the registered deserializer, here the only one.
  An error it reports ends the request with that error (\<open>next(err)\<close>). A row becomes
  \<open>req.user\<close>. A user that is \<open>null\<close> or \<open>false\<close> stands for a user who has been
  removed: the id is deleted from the session and the request goes on with no
  \<open>req.user\<close>. A user that is \<open>undefined\<close> makes Passport turn to the next
  deserializer, and with none left it ends the request with the error
  \<open>Failed to deserialize user out of session\<close>.
\<close>

definition passport_session :: "world \<Rightarrow> (js_error + users_row option) \<times> world" where
  "passport_session w =
     (case session w of
        None \<Rightarrow> (Inr None, w)
      | Some su \<Rightarrow>
         (case deserializeUser (db w) su of
            Done (Some e) _ \<Rightarrow> (Inl e, w)
          | Done None (UserRow u) \<Rightarrow> (Inr (Some u), w)
          | Done None UserUndefined \<Rightarrow>
              (Inl (JsError ''Failed to deserialize user out of session''), w)
          | Done None _ \<Rightarrow> (Inr None, w\<lparr>session := None\<rparr>)))"

text \<open>
  A request to the application: \<open>passport.session()\<close> runs in front of every route
  (\<open>main-config.js\<close>), then the route runs on the request with the user it resolved.
\<close>

definition request ::
  "(req \<Rightarrow> world \<Rightarrow> outcome) \<Rightarrow> (string \<rightharpoonup> json) \<Rightarrow> (string \<rightharpoonup> json) \<Rightarrow> world \<Rightarrow> outcome" where
  "request rt b q w =
     (case passport_session w of
        (Inl e, w') \<Rightarrow> \<lparr>handler_ran = False, left = Throw e, final = w'\<rparr>
      | (Inr u, w') \<Rightarrow> rt \<lparr>body = b, query = q, user = u\<rparr> w')"

section \<open>Example data\<close>

text \<open>
  The rows of the seed file: \<open>jeremy\<close>, and the administrator \<open>kelly\<close>. The examples
  use a stand-in for bcrypt whose hash is the salt, seven characters long, followed by
  the password; it has the round trip of the real one and none of its secrecy.
\<close>

definition demo_bcrypt :: bcrypt where
  "demo_bcrypt = \<lparr>hashSync = (\<lambda>pw salt. salt @ pw), compareSync = (\<lambda>pw h. drop 7 h = pw)\<rparr>"

definition jeremy :: users_row where
  "jeremy = \<lparr>user_id = 1, username = ''jeremy'', password = ''$2a$10$johnson123'', admin = False\<rparr>"

definition kelly :: users_row where
  "kelly = \<lparr>user_id = 2, username = ''kelly'', password = ''$2a$10$bryant123'', admin = True\<rparr>"

definition seed_db :: knex where
  "seed_db = \<lparr>users = [jeremy, kelly], next_id = 3, online = True,
              where_other = (\<lambda>v. Inl (DbError ''could not serialize the binding'')),
              text_of = (\<lambda>v. ''[object Object]'')\<rparr>"

definition fresh :: "knex \<Rightarrow> nat option \<Rightarrow> world" where
  "fresh k s = \<lparr>db = k, session = s, sent = None\<rparr>"

section \<open>Auxiliary facts\<close>

subsection \<open>Responses and queries\<close>

lemma status_json_fresh:
  "sent w = None \<Longrightarrow> status_json c m w = (None, w\<lparr>sent := Some \<lparr>statusCode = c, status = m\<rparr>\<rparr>)"
  by (simp add: status_json_def)

lemma status_json_sent:
  "sent w = Some r \<Longrightarrow> status_json c m w = (Some HeadersSent, w)"
  by (simp add: status_json_def)

lemma find_unique:
  "distinct (map username rs) \<Longrightarrow> row \<in> set rs \<Longrightarrow> find (\<lambda>r. username r = username row) rs = Some row"
  by (induction rs) (auto simp: image_iff)

lemma find_absent:
  "name \<notin> username ` set rs \<Longrightarrow> find (\<lambda>r. username r = name) rs = None"
  by (induction rs) auto

subsection \<open>Gates and handlers on a request not yet answered\<close>

lemma loginRequired_anonymous:
  "sent w = None \<Longrightarrow> user rq = None \<Longrightarrow>
   loginRequired rq w = (End, w\<lparr>sent := Some \<lparr>statusCode = 401, status = ''Please log in''\<rparr>\<rparr>)"
  by (simp add: loginRequired_def status_json_fresh)

lemma loginRedirect_anonymous: "user rq = None \<Longrightarrow> loginRedirect rq w = (Next, w)"
  by (simp add: loginRedirect_def)

lemma loginRedirect_user:
  "sent w = None \<Longrightarrow> user rq = Some u \<Longrightarrow>
   loginRedirect rq w =
     (End, w\<lparr>sent := Some \<lparr>statusCode = 401, status = ''You are already logged in''\<rparr>\<rparr>)"
  by (simp add: loginRedirect_def status_json_fresh)

lemma adminRequired_anonymous:
  "sent w = None \<Longrightarrow> user rq = None \<Longrightarrow>
   adminRequired rq w =
     (Throw (TypeError ''Cannot read property username of undefined''),
      w\<lparr>sent := Some \<lparr>statusCode = 401, status = ''Please log in''\<rparr>\<rparr>)"
  by (simp add: adminRequired_def status_json_fresh)

lemma adminRequired_row:
  "sent w = None \<Longrightarrow> user rq = Some u \<Longrightarrow>
   where_username_first (db w) (username u) = Inr (Some row) \<Longrightarrow>
   adminRequired rq w =
     (Next, if admin row then w
            else w\<lparr>sent := Some \<lparr>statusCode = 401, status = ''You are not authorized''\<rparr>\<rparr>)"
  by (simp add: adminRequired_def status_json_fresh)

lemma success_handler_fresh:
  "sent w = None \<Longrightarrow>
   success_handler rq w = (End, w\<lparr>sent := Some \<lparr>statusCode = 200, status = ''success''\<rparr>\<rparr>)"
  by (simp add: success_handler_def handleResponse_def status_json_fresh)

lemma success_handler_sent:
  "sent w = Some r \<Longrightarrow> success_handler rq w = (Throw HeadersSent, w)"
  by (simp add: success_handler_def handleResponse_def status_json_sent)

subsection \<open>The verify callback and the strategy\<close>

text \<open>
  Called with two strings and \<open>verified\<close>, the callback reports the row of the name when
  the password compares, no user when it does not or when no row has the name, and the
  error of a rejected query. Called with the request in front, its \<open>done\<close> is the
  password, and every path ends in the TypeError of calling it.
\<close>

lemma verify_strings:
  "verify bc k (JJson (JString name)) (JJson (JString pw)) JVerified =
     Called (case where_username_first k name of
               Inl e \<Rightarrow> Done (Some e) UserUndefined
             | Inr None \<Rightarrow> Done None UserFalse
             | Inr (Some row) \<Rightarrow>
                 (if compareSync bc pw (password row) then Done None (UserRow row)
                  else Done None UserFalse))"
  by (simp add: verify_def call_done_def comparePass_def split: sum.splits option.splits)

lemma call_done_json: "call_done (JJson p) c = Inl (TypeError ''done is not a function'')"
  by (simp add: call_done_def)

lemma verify_shifted:
  "verify bc k (JReq rq) (JJson u) (JJson p) = Unhandled (TypeError ''done is not a function'')"
  by (simp add: verify_def call_done_json
        split: sum.splits option.splits jsval.splits json.splits)

lemma credential_absent:
  "body rq field = None \<Longrightarrow> query rq field = None \<Longrightarrow> credential rq field = None"
  by (simp add: credential_def lookup_def)

lemma credential_body_string:
  "body rq field = Some (JString s) \<Longrightarrow> s \<noteq> [] \<Longrightarrow> credential rq field = Some (JString s)"
  by (simp add: credential_def lookup_def)

lemma authenticate_local_no_email:
  "body rq ''email'' = None \<Longrightarrow> query rq ''email'' = None \<Longrightarrow>
   authenticate options_local bc k rq = Fail (Some ''Missing credentials'')"
  by (simp add: authenticate_def options_local_def field_or_def credential_absent)

lemma authenticate_local_never_success:
  "authenticate options_local bc k rq \<noteq> Success u"
  by (simp add: authenticate_def options_local_def field_or_def verify_shifted
        split: option.splits)

lemma authenticate_empty_strings:
  "body rq ''username'' = Some (JString u) \<Longrightarrow> body rq ''password'' = Some (JString p) \<Longrightarrow>
   query rq = Map.empty \<Longrightarrow>
   authenticate options_empty bc k rq =
     (if u = [] \<or> p = [] then Fail (Some ''Missing credentials'')
      else (case where_username_first k u of
              Inl e \<Rightarrow> Failure e
            | Inr None \<Rightarrow> Fail None
            | Inr (Some row) \<Rightarrow>
                (if compareSync bc p (password row) then Success row else Fail None)))"
  by (simp add: authenticate_def options_empty_def field_or_def credential_def lookup_def
        verify_strings verified_def split: sum.splits option.splits)

lemma login_fail_fresh:
  "sent w = None \<Longrightarrow> login_callback None None w = (None, w\<lparr>sent := Some \<lparr>statusCode = 404, status = ''User not found''\<rparr>\<rparr>)"
  by (simp add: login_callback_def handleResponse_def status_json_fresh)

lemma login_handler_fail:
  "sent w = None \<Longrightarrow> authenticate opts bc (db w) rq = Fail i \<Longrightarrow>
   login_handler opts bc rq w =
     (End, w\<lparr>sent := Some \<lparr>statusCode = 404, status = ''User not found''\<rparr>\<rparr>)"
  by (cases i) (simp_all add: login_handler_def login_fail_fresh)

subsection \<open>Registration\<close>

lemma createUser_rejected:
  "sent w = None \<Longrightarrow> handleErrors rq = Inl e \<Longrightarrow>
   createUser bc salt rq w =
     (Inr None, w\<lparr>sent := Some \<lparr>statusCode = 400, status = message e\<rparr>\<rparr>)"
  by (simp add: createUser_def status_json_fresh)

lemma register_handler_rejected:
  "sent w = None \<Longrightarrow> handleErrors rq = Inl e \<Longrightarrow>
   register_handler bc salt rq w =
     (Rejected HeadersSent, w\<lparr>sent := Some \<lparr>statusCode = 400, status = message e\<rparr>\<rparr>)"
  by (simp add: register_handler_def createUser_rejected handleResponse_def status_json_sent)

lemma handleErrors_ok:
  "handleErrors rq = Inr x \<Longrightarrow> \<exists>v. body rq ''username'' = Some v"
  by (cases "body rq ''username''") (simp_all add: handleErrors_def)

lemma register_handler_valid:
  assumes "sent w = None" and "body rq ''username'' = Some v"
    and "body rq ''password'' = Some (JString p)" and "handleErrors rq = Inr x"
  shows "register_handler bc salt rq w =
     (case insert_returning (db w)
             \<lparr>ins_username = column_text (db w) v, ins_password = hashSync bc p salt,
              ins_admin = None\<rparr> of
        (Inr rows, k) \<Rightarrow> (End, w\<lparr>db := k, sent := Some \<lparr>statusCode = 200, status = ''success''\<rparr>\<rparr>)
      | (Inl e, k) \<Rightarrow> (Rejected HeadersSent,
                       w\<lparr>db := k, sent := Some \<lparr>statusCode = 400, status = message e\<rparr>\<rparr>))"
  using assms
  by (simp add: register_handler_def createUser_def handleLogin_def handleResponse_def
        status_json_def split: prod.splits sum.splits)

lemma register_handler_no_hash:
  assumes "sent w = None" and "handleErrors rq = Inr x"
    and "\<And>p. body rq ''password'' \<noteq> Some (JString p)"
  shows "\<exists>m. register_handler bc salt rq w =
           (Rejected HeadersSent, w\<lparr>sent := Some \<lparr>statusCode = 400, status = m\<rparr>\<rparr>)"
  using assms
  by (auto simp: register_handler_def createUser_def handleResponse_def status_json_def
        split: option.splits json.splits)

lemma insert_returning_ok:
  "insert_returning k c = (Inr rows, k') \<Longrightarrow>
   users k' = users k @ [\<lparr>user_id = next_id k, username = ins_username c,
                          password = ins_password c,
                          admin = (case ins_admin c of None \<Rightarrow> False | Some a \<Rightarrow> a)\<rparr>]"
  by (auto simp: insert_returning_def Let_def split: if_splits option.splits)

section \<open>The credential verifier\<close>

text \<open>
  Claim C1. For every login attempt the verifier looks the submitted username up, reports
  no such user when no row has it, and otherwise compares the submitted password with
  the stored hash, reporting a bad password on a mismatch and the stored row on a match.
  With the options of \<open>auth/local.js\<close> this does not happen. The README's own login
  test sends \<open>jeremy\<close> and \<open>johnson123\<close>, the seeded row, as \<open>username\<close> and
  \<open>password\<close>: the strategy reads \<open>email\<close>, finds nothing and fails the attempt
  without calling the callback. With the name sent as \<open>email\<close>, the callback is called
  with the request in front of its three parameters and never reports a result. With
  the empty options of the tutorial's text the same attempt is authenticated with the
  stored row.
\<close>

theorem local_strategy_login_attempts:
  "authenticate options_local demo_bcrypt seed_db
     \<lparr>body = [''username'' \<mapsto> JString ''jeremy'', ''password'' \<mapsto> JString ''johnson123''], query = Map.empty, user = None\<rparr>
     = Fail (Some ''Missing credentials'')
   \<and> sent (final (post_login options_local demo_bcrypt
     \<lparr>body = [''username'' \<mapsto> JString ''jeremy'', ''password'' \<mapsto> JString ''johnson123''], query = Map.empty, user = None\<rparr>
     (fresh seed_db None)))
     = Some \<lparr>statusCode = 404, status = ''User not found''\<rparr>
   \<and> authenticate options_local demo_bcrypt seed_db
     \<lparr>body = [''email'' \<mapsto> JString ''jeremy'', ''password'' \<mapsto> JString ''johnson123''], query = Map.empty, user = None\<rparr>
     = Pending (TypeError ''done is not a function'')
   \<and> sent (final (post_login options_local demo_bcrypt
     \<lparr>body = [''email'' \<mapsto> JString ''jeremy'', ''password'' \<mapsto> JString ''johnson123''], query = Map.empty, user = None\<rparr>
     (fresh seed_db None)))
     = None
   \<and> authenticate options_empty demo_bcrypt seed_db
     \<lparr>body = [''username'' \<mapsto> JString ''jeremy'', ''password'' \<mapsto> JString ''johnson123''], query = Map.empty, user = None\<rparr>
     = Success jeremy
   \<and> comparePass demo_bcrypt ''johnson123'' (password jeremy)"
  by (simp add: authenticate_def options_local_def options_empty_def field_or_def verify_shifted
        credential_def lookup_def
        verify_strings where_username_first_def seed_db_def jeremy_def kelly_def demo_bcrypt_def
        verified_def post_login_def route_def loginRedirect_def login_handler_def
        login_callback_def handleResponse_def status_json_def fresh_def comparePass_def)

section \<open>Failed logins\<close>

text \<open>
  With the credentials sent as strings in \<open>username\<close> and \<open>password\<close> and nothing in
  the query, the two failures of a login do get the same 404, on a database that answers
  and keeps usernames unique: with the empty options both come from the callback's
  \<open>done(null, false)\<close>, with the options of \<open>auth/local.js\<close> both come from the missing
  \<open>email\<close>.
\<close>

lemma login_failures_strings:
  assumes "opts = options_local \<or> opts = options_empty"
    and "online (db w)" and "sent w = None"
    and "u1 \<notin> username ` set (users (db w))"
    and "distinct (map username (users (db w)))" and "row \<in> set (users (db w))"
    and "\<not> compareSync bc p2 (password row)"
  shows "sent (final (post_login opts bc
            \<lparr>body = [''username'' \<mapsto> JString u1, ''password'' \<mapsto> JString p1],
             query = Map.empty, user = None\<rparr> w))
           = Some \<lparr>statusCode = 404, status = ''User not found''\<rparr>
       \<and> sent (final (post_login opts bc
            \<lparr>body = [''username'' \<mapsto> JString (username row), ''password'' \<mapsto> JString p2],
             query = Map.empty, user = None\<rparr> w))
           = Some \<lparr>statusCode = 404, status = ''User not found''\<rparr>"
proof -
  let ?r1 = "\<lparr>body = [''username'' \<mapsto> JString u1, ''password'' \<mapsto> JString p1],
             query = Map.empty, user = None\<rparr>"
  let ?r2 = "\<lparr>body = [''username'' \<mapsto> JString (username row), ''password'' \<mapsto> JString p2],
             query = Map.empty, user = None\<rparr>"
  have f1: "find (\<lambda>r. username r = u1) (users (db w)) = None"
    using assms(4) by (rule find_absent)
  have f2: "find (\<lambda>r. username r = username row) (users (db w)) = Some row"
    using assms(5,6) by (rule find_unique)
  have a1: "\<exists>i. authenticate opts bc (db w) ?r1 = Fail i"
    using assms(1)
  proof
    assume "opts = options_local"
    then show ?thesis by (simp add: authenticate_local_no_email)
  next
    assume "opts = options_empty"
    then show ?thesis
      using f1 assms(2)
      by (simp add: authenticate_empty_strings where_username_first_def)
  qed
  have a2: "\<exists>i. authenticate opts bc (db w) ?r2 = Fail i"
    using assms(1)
  proof
    assume "opts = options_local"
    then show ?thesis by (simp add: authenticate_local_no_email)
  next
    assume "opts = options_empty"
    then show ?thesis
      using f2 assms(2,7)
      by (simp add: authenticate_empty_strings where_username_first_def)
  qed
  from a1 obtain i1 where i1: "authenticate opts bc (db w) ?r1 = Fail i1" ..
  from a2 obtain i2 where i2: "authenticate opts bc (db w) ?r2 = Fail i2" ..
  have "login_handler opts bc ?r1 w =
          (End, w\<lparr>sent := Some \<lparr>statusCode = 404, status = ''User not found''\<rparr>\<rparr>)"
    using assms(3) i1 by (rule login_handler_fail)
  moreover have "login_handler opts bc ?r2 w =
          (End, w\<lparr>sent := Some \<lparr>statusCode = 404, status = ''User not found''\<rparr>\<rparr>)"
    using assms(3) i2 by (rule login_handler_fail)
  ultimately show ?thesis
    by (simp add: post_login_def route_def loginRedirect_anonymous)
qed

text \<open>
  Claim C2. An anonymous login with a username that no row has and an anonymous login
  with the username of a row and a password that does not match get the same response,
  404 with the status \<open>User not found\<close>. The code aims at this, both failures being
  \<open>done(null, false)\<close>, and misses it. The body is JSON, and a password can be the number
  1. With the empty options of the tutorial's text, for \<open>michael\<close>, whom no row has, the
  callback stops at the missing row and the answer is 404; for \<open>jeremy\<close> of the seed file
  the number reaches \<open>comparePass\<close>, bcrypt throws on it, the \<open>catch\<close> callback reports
  the exception with \<open>done(err)\<close>, and the answer is 500 \<open>error\<close>: the two answers tell
  whether the username exists. With the options of \<open>auth/local.js\<close> and the names sent
  as \<open>email\<close>, neither login is answered at all, for the reason given under claim C1.
\<close>

theorem login_failures_distinguishable:
  "''michael'' \<notin> username ` set (users seed_db)
   \<and> jeremy \<in> set (users seed_db)
   \<and> sent (final (post_login options_empty demo_bcrypt
        \<lparr>body = [''username'' \<mapsto> JString ''michael'', ''password'' \<mapsto> JNumber 1],
         query = Map.empty, user = None\<rparr> (fresh seed_db None)))
       = Some \<lparr>statusCode = 404, status = ''User not found''\<rparr>
   \<and> sent (final (post_login options_empty demo_bcrypt
        \<lparr>body = [''username'' \<mapsto> JString (username jeremy), ''password'' \<mapsto> JNumber 1],
         query = Map.empty, user = None\<rparr> (fresh seed_db None)))
       = Some \<lparr>statusCode = 500, status = ''error''\<rparr>
   \<and> sent (final (post_login options_local demo_bcrypt
        \<lparr>body = [''email'' \<mapsto> JString ''michael'', ''password'' \<mapsto> JString ''johnson124''],
         query = Map.empty, user = None\<rparr> (fresh seed_db None)))
       = None
   \<and> sent (final (post_login options_local demo_bcrypt
        \<lparr>body = [''email'' \<mapsto> JString (username jeremy), ''password'' \<mapsto> JString ''johnson124''],
         query = Map.empty, user = None\<rparr> (fresh seed_db None)))
       = None"
  by (simp add: post_login_def route_def loginRedirect_def login_handler_def authenticate_def
        options_empty_def options_local_def field_or_def credential_def lookup_def
        verify_def call_done_def where_username_first_def verified_def login_callback_def
        handleResponse_def status_json_def fresh_def seed_db_def jeremy_def kelly_def)

section \<open>The admin gate\<close>

text \<open>
  Claim C3. On the admin endpoint the gate checks for a missing login before it checks
  the admin flag, one response at most is written, and a request the gate answered
  never reaches the handler behind it. The last part fails for a logged-in user who is
  no administrator: \<open>jeremy\<close> of the seed file gets the 401 and the gate then calls
  \<open>next()\<close>, so the handler runs and its own write of the 200 throws on the response
  already sent.
\<close>

theorem admin_guard_runs_handler_after_401:
  "get_admin \<lparr>body = Map.empty, query = Map.empty, user = Some jeremy\<rparr> (fresh seed_db (Some 1)) =
     \<lparr>handler_ran = True, left = Throw HeadersSent,
      final = (fresh seed_db (Some 1))
                \<lparr>sent := Some \<lparr>statusCode = 401, status = ''You are not authorized''\<rparr>\<rparr>\<rparr>
   \<and> adminRequired \<lparr>body = Map.empty, query = Map.empty, user = Some jeremy\<rparr> (fresh seed_db (Some 1)) =
     (Next, (fresh seed_db (Some 1))
                \<lparr>sent := Some \<lparr>statusCode = 401, status = ''You are not authorized''\<rparr>\<rparr>)"
  by (simp add: get_admin_def route_def adminRequired_def success_handler_def handleResponse_def
        status_json_def where_username_first_def fresh_def seed_db_def jeremy_def kelly_def)

text \<open>
  Claim C5. On the admin endpoint, a logged-in user whose row has the admin flag gets
  200 \<open>success\<close>, a logged-in user whose row does not have it gets 401
  \<open>You are not authorized\<close>, and an anonymous caller gets 401 \<open>Please log in\<close>. The
  response is the one the client receives, the first one written; the row is the one the
  gate fetches by the user's name.
\<close>

theorem admin_info_responses:
  assumes "sent w = None"
  shows "(user rq = None \<longrightarrow>
            sent (final (get_admin rq w)) = Some \<lparr>statusCode = 401, status = ''Please log in''\<rparr>)
       \<and> (\<forall>u row. user rq = Some u \<and> where_username_first (db w) (username u) = Inr (Some row) \<longrightarrow>
            sent (final (get_admin rq w)) =
              Some (if admin row then \<lparr>statusCode = 200, status = ''success''\<rparr>
                    else \<lparr>statusCode = 401, status = ''You are not authorized''\<rparr>))"
proof (intro conjI impI allI)
  assume "user rq = None"
  with assms show "sent (final (get_admin rq w)) = Some \<lparr>statusCode = 401, status = ''Please log in''\<rparr>"
    by (simp add: get_admin_def route_def adminRequired_anonymous)
next
  fix u row
  assume h: "user rq = Some u \<and> where_username_first (db w) (username u) = Inr (Some row)"
  show "sent (final (get_admin rq w)) =
          Some (if admin row then \<lparr>statusCode = 200, status = ''success''\<rparr>
                else \<lparr>statusCode = 401, status = ''You are not authorized''\<rparr>)"
  proof (cases "admin row")
    case True
    with assms h show ?thesis
      by (simp add: get_admin_def route_def adminRequired_row success_handler_fresh)
  next
    case False
    with assms h show ?thesis
      by (simp add: get_admin_def route_def adminRequired_row success_handler_sent)
  qed
qed

theorem admin_info_responses_witness:
  "sent (final (get_admin \<lparr>body = Map.empty, query = Map.empty, user = None\<rparr> (fresh seed_db None)))
     = Some \<lparr>statusCode = 401, status = ''Please log in''\<rparr>
   \<and> sent (final (get_admin \<lparr>body = Map.empty, query = Map.empty, user = Some kelly\<rparr> (fresh seed_db (Some 2))))
     = Some \<lparr>statusCode = 200, status = ''success''\<rparr>
   \<and> sent (final (get_admin \<lparr>body = Map.empty, query = Map.empty, user = Some jeremy\<rparr> (fresh seed_db (Some 1))))
     = Some \<lparr>statusCode = 401, status = ''You are not authorized''\<rparr>"
  using admin_info_responses [of "fresh seed_db None" "\<lparr>body = Map.empty, query = Map.empty, user = None\<rparr>"]
    admin_info_responses [of "fresh seed_db (Some 2)" "\<lparr>body = Map.empty, query = Map.empty, user = Some kelly\<rparr>"]
    admin_info_responses [of "fresh seed_db (Some 1)" "\<lparr>body = Map.empty, query = Map.empty, user = Some jeremy\<rparr>"]
  by (simp add: fresh_def seed_db_def jeremy_def kelly_def where_username_first_def)

section \<open>Registering\<close>

text \<open>
  Claim C4. An anonymous registration with a username of fewer than 6 characters gets
  400 with the message about the username, whatever the password is, also a missing one;
  with a username long enough and a password of fewer than 6 characters it gets 400 with
  the message about the password. In both cases the database stays as it was.
\<close>

theorem register_validation:
  assumes "user rq = None" and "sent w = None" and "body rq ''username'' = Some (JString u)"
  shows "(length u < 6 \<longrightarrow>
            sent (final (post_register bc salt rq w)) =
              Some \<lparr>statusCode = 400, status = ''Username must be longer than 6 characters''\<rparr>
            \<and> db (final (post_register bc salt rq w)) = db w)
       \<and> (6 \<le> length u \<and> body rq ''password'' = Some (JString p) \<and> length p < 6 \<longrightarrow>
            sent (final (post_register bc salt rq w)) =
              Some \<lparr>statusCode = 400, status = ''Password must be longer than 6 characters''\<rparr>
            \<and> db (final (post_register bc salt rq w)) = db w)"
proof (intro conjI impI)
  assume "length u < 6"
  then have "handleErrors rq = Inl (Rejection ''Username must be longer than 6 characters'')"
    using assms(3) by (simp add: handleErrors_def)
  then have r: "register_handler bc salt rq w =
      (Rejected HeadersSent,
       w\<lparr>sent := Some \<lparr>statusCode = 400, status = ''Username must be longer than 6 characters''\<rparr>\<rparr>)"
    using register_handler_rejected [OF assms(2)] by fastforce
  show "sent (final (post_register bc salt rq w)) =
          Some \<lparr>statusCode = 400, status = ''Username must be longer than 6 characters''\<rparr>"
    using r assms(1) by (simp add: post_register_def route_def loginRedirect_anonymous)
  show "db (final (post_register bc salt rq w)) = db w"
    using r assms(1) by (simp add: post_register_def route_def loginRedirect_anonymous)
next
  assume h: "6 \<le> length u \<and> body rq ''password'' = Some (JString p) \<and> length p < 6"
  then have "handleErrors rq = Inl (Rejection ''Password must be longer than 6 characters'')"
    using assms(3) by (simp add: handleErrors_def)
  then have r: "register_handler bc salt rq w =
      (Rejected HeadersSent,
       w\<lparr>sent := Some \<lparr>statusCode = 400, status = ''Password must be longer than 6 characters''\<rparr>\<rparr>)"
    using register_handler_rejected [OF assms(2)] by fastforce
  show "sent (final (post_register bc salt rq w)) =
          Some \<lparr>statusCode = 400, status = ''Password must be longer than 6 characters''\<rparr>"
    using r assms(1) by (simp add: post_register_def route_def loginRedirect_anonymous)
  show "db (final (post_register bc salt rq w)) = db w"
    using r assms(1) by (simp add: post_register_def route_def loginRedirect_anonymous)
qed

theorem register_validation_witness:
  "(sent (final (post_register demo_bcrypt ''$2a$10$''
       \<lparr>body = [''username'' \<mapsto> JString ''six'', ''password'' \<mapsto> JString ''six''], query = Map.empty, user = None\<rparr> (fresh seed_db None))) =
      Some \<lparr>statusCode = 400, status = ''Username must be longer than 6 characters''\<rparr>
    \<and> db (final (post_register demo_bcrypt ''$2a$10$''
       \<lparr>body = [''username'' \<mapsto> JString ''six'', ''password'' \<mapsto> JString ''six''], query = Map.empty, user = None\<rparr> (fresh seed_db None))) = seed_db)
   \<and> (sent (final (post_register demo_bcrypt ''$2a$10$''
       \<lparr>body = [''username'' \<mapsto> JString ''michael'', ''password'' \<mapsto> JString ''six''], query = Map.empty, user = None\<rparr> (fresh seed_db None))) =
      Some \<lparr>statusCode = 400, status = ''Password must be longer than 6 characters''\<rparr>
    \<and> db (final (post_register demo_bcrypt ''$2a$10$''
       \<lparr>body = [''username'' \<mapsto> JString ''michael'', ''password'' \<mapsto> JString ''six''], query = Map.empty, user = None\<rparr> (fresh seed_db None))) = seed_db)"
  using register_validation [of "\<lparr>body = [''username'' \<mapsto> JString ''six'', ''password'' \<mapsto> JString ''six''], query = Map.empty, user = None\<rparr>"
      "fresh seed_db None" "''six''" demo_bcrypt "''$2a$10$''" "''six''"]
    register_validation [of "\<lparr>body = [''username'' \<mapsto> JString ''michael'', ''password'' \<mapsto> JString ''six''], query = Map.empty, user = None\<rparr>"
      "fresh seed_db None" "''michael''" demo_bcrypt "''$2a$10$''" "''six''"]
  by (simp add: fresh_def)

lemma registration_row:
  assumes "user rq = None" and "sent w = None"
    and "sent (final (post_register bc salt rq w)) = Some \<lparr>statusCode = 200, status = ''success''\<rparr>"
  shows "\<exists>v p. body rq ''username'' = Some v \<and> body rq ''password'' = Some (JString p)
           \<and> users (db (final (post_register bc salt rq w))) =
               users (db w) @ [\<lparr>user_id = next_id (db w), username = column_text (db w) v,
                                password = hashSync bc p salt, admin = False\<rparr>]"
proof (cases "handleErrors rq")
  case (Inl e)
  then have "register_handler bc salt rq w =
     (Rejected HeadersSent, w\<lparr>sent := Some \<lparr>statusCode = 400, status = message e\<rparr>\<rparr>)"
    using assms(2) by (simp add: register_handler_rejected)
  with assms(1,3) show ?thesis
    by (simp add: post_register_def route_def loginRedirect_anonymous)
next
  case (Inr x)
  then obtain v where v: "body rq ''username'' = Some v"
    using handleErrors_ok by blast
  show ?thesis
  proof (cases "\<exists>p. body rq ''password'' = Some (JString p)")
    case False
    then have "\<exists>m. register_handler bc salt rq w =
           (Rejected HeadersSent, w\<lparr>sent := Some \<lparr>statusCode = 400, status = m\<rparr>\<rparr>)"
      using register_handler_no_hash [OF assms(2) Inr] by blast
    with assms(1,3) show ?thesis
      by (auto simp: post_register_def route_def loginRedirect_anonymous)
  next
    case True
    then obtain p where p: "body rq ''password'' = Some (JString p)" ..
    let ?c = "\<lparr>ins_username = column_text (db w) v, ins_password = hashSync bc p salt,
               ins_admin = None\<rparr>"
    obtain r k where ins: "insert_returning (db w) ?c = (r, k)"
      by (cases "insert_returning (db w) ?c")
    have h: "register_handler bc salt rq w =
       (case (r, k) of
          (Inr rows, k) \<Rightarrow> (End, w\<lparr>db := k, sent := Some \<lparr>statusCode = 200, status = ''success''\<rparr>\<rparr>)
        | (Inl e, k) \<Rightarrow> (Rejected HeadersSent,
                         w\<lparr>db := k, sent := Some \<lparr>statusCode = 400, status = message e\<rparr>\<rparr>))"
      using register_handler_valid [OF assms(2) v p Inr, of bc salt] ins by simp
    show ?thesis
    proof (cases r)
      case (Inl e)
      with h assms(1,3) show ?thesis
        by (simp add: post_register_def route_def loginRedirect_anonymous)
    next
      case (Inr rows)
      with ins have "users k = users (db w) @ [\<lparr>user_id = next_id (db w),
                                username = column_text (db w) v,
                                password = hashSync bc p salt, admin = False\<rparr>]"
        using insert_returning_ok [of "db w" ?c rows k] by simp
      with h Inr assms(1) v p show ?thesis
        by (simp add: post_register_def route_def loginRedirect_anonymous)
    qed
  qed
qed

text \<open>
  Claim C6. Whenever an anonymous registration is answered with 200 \<open>success\<close>, the
  table has grown by exactly one row: its username is the submitted one (as the text
  the column stores, which for a string is the string), its password is what bcrypt's
  \<open>hashSync\<close> made of the submitted password and the salt, and its admin flag is
  false, whatever else the body holds. The example's body asks for \<open>admin\<close> in vain.
\<close>

theorem registration_stores_hash_and_default_admin:
  assumes "user rq = None" and "sent w = None"
    and "sent (final (post_register bc salt rq w)) = Some \<lparr>statusCode = 200, status = ''success''\<rparr>"
  shows "\<exists>v p. body rq ''username'' = Some v \<and> body rq ''password'' = Some (JString p)
           \<and> users (db (final (post_register bc salt rq w))) =
               users (db w) @ [\<lparr>user_id = next_id (db w),
                                username = (case v of JString u \<Rightarrow> u | _ \<Rightarrow> text_of (db w) v),
                                password = hashSync bc p salt, admin = False\<rparr>]"
  using registration_row [OF assms] unfolding column_text_def .

theorem registration_stores_hash_and_default_admin_witness:
  "users (db (final (post_register demo_bcrypt ''$2a$10$''
      \<lparr>body = [''username'' \<mapsto> JString ''michael'', ''password'' \<mapsto> JString ''herman1'',
               ''admin'' \<mapsto> JBool True],
       query = Map.empty, user = None\<rparr> (fresh seed_db None)))) =
     users seed_db @ [\<lparr>user_id = next_id seed_db, username = ''michael'',
                       password = hashSync demo_bcrypt ''herman1'' ''$2a$10$'', admin = False\<rparr>]"
proof -
  let ?rq = "\<lparr>body = [''username'' \<mapsto> JString ''michael'', ''password'' \<mapsto> JString ''herman1'',
                      ''admin'' \<mapsto> JBool True],
             query = Map.empty, user = None\<rparr>"
  have ok: "sent (final (post_register demo_bcrypt ''$2a$10$'' ?rq (fresh seed_db None))) =
              Some \<lparr>statusCode = 200, status = ''success''\<rparr>"
    by (simp add: post_register_def route_def loginRedirect_def register_handler_def createUser_def
          handleErrors_def insert_returning_def handleLogin_def handleResponse_def status_json_def
          column_text_def fresh_def seed_db_def jeremy_def kelly_def demo_bcrypt_def Let_def)
  have "user ?rq = None" and "sent (fresh seed_db None) = None"
    by (simp_all add: fresh_def)
  from registration_stores_hash_and_default_admin [OF this ok] show ?thesis
    by (auto simp: fresh_def column_text_def)
qed

section \<open>Callers who are logged in already\<close>

text \<open>
  Claim C7. A registration or a login by a caller for whom the session resolved a user
  gets 401 \<open>You are already logged in\<close>; the handler behind the gate does not run, and
  the session and the database are what they were.
\<close>

theorem logged_in_caller_is_turned_away:
  assumes "user rq = Some u" and "sent w = None"
  shows "post_register bc salt rq w =
           \<lparr>handler_ran = False, left = End,
            final = w\<lparr>sent := Some \<lparr>statusCode = 401, status = ''You are already logged in''\<rparr>\<rparr>\<rparr>
       \<and> post_login opts bc rq w =
           \<lparr>handler_ran = False, left = End,
            final = w\<lparr>sent := Some \<lparr>statusCode = 401, status = ''You are already logged in''\<rparr>\<rparr>\<rparr>
       \<and> session (final (post_register bc salt rq w)) = session w
       \<and> db (final (post_register bc salt rq w)) = db w
       \<and> session (final (post_login opts bc rq w)) = session w
       \<and> db (final (post_login opts bc rq w)) = db w"
  using assms
  by (simp add: post_register_def post_login_def route_def loginRedirect_user)

theorem logged_in_caller_is_turned_away_witness:
  "post_register demo_bcrypt ''$2a$10$''
      \<lparr>body = [''username'' \<mapsto> JString ''michael'', ''password'' \<mapsto> JString ''herman''], query = Map.empty, user = Some jeremy\<rparr>
      (fresh seed_db (Some 1)) =
     \<lparr>handler_ran = False, left = End,
      final = \<lparr>db = seed_db, session = Some 1,
               sent = Some \<lparr>statusCode = 401, status = ''You are already logged in''\<rparr>\<rparr>\<rparr>
   \<and> post_login options_local demo_bcrypt
      \<lparr>body = [''username'' \<mapsto> JString ''jeremy'', ''password'' \<mapsto> JString ''johnson123''], query = Map.empty, user = Some jeremy\<rparr>
      (fresh seed_db (Some 1)) =
     \<lparr>handler_ran = False, left = End,
      final = \<lparr>db = seed_db, session = Some 1,
               sent = Some \<lparr>statusCode = 401, status = ''You are already logged in''\<rparr>\<rparr>\<rparr>"
  using logged_in_caller_is_turned_away [of
      "\<lparr>body = [''username'' \<mapsto> JString ''michael'', ''password'' \<mapsto> JString ''herman''], query = Map.empty, user = Some jeremy\<rparr>"
      jeremy "fresh seed_db (Some 1)" demo_bcrypt "''$2a$10$''" options_local]
    logged_in_caller_is_turned_away [of
      "\<lparr>body = [''username'' \<mapsto> JString ''jeremy'', ''password'' \<mapsto> JString ''johnson123''], query = Map.empty, user = Some jeremy\<rparr>"
      jeremy "fresh seed_db (Some 1)" demo_bcrypt "''$2a$10$''" options_local]
  by (simp add: fresh_def)

section \<open>Sessions that no longer resolve\<close>

text \<open>
  Claim C8, as stated: when the session's user cannot be deserialized, because the row
  is gone or because the query fails, the request goes on as an anonymous one. It fails
  on both accounts. With the seed's database unreachable, a request to \<open>/user\<close> with a
  session ends with the database's error; with the database up and a session whose id
  no row has, it ends with Passport's error for the \<open>undefined\<close> that \<open>.first()\<close>
  gave to \<open>done\<close>. Neither gets a response from a gate, where an anonymous caller gets
  401 \<open>Please log in\<close>.
\<close>

theorem deserialization_failure_counterexample:
  "left (request get_user Map.empty Map.empty (fresh (seed_db\<lparr>online := False\<rparr>) (Some 1))) =
     Throw (DbError ''connection refused'')
   \<and> sent (final (request get_user Map.empty Map.empty (fresh (seed_db\<lparr>online := False\<rparr>) (Some 1)))) = None
   \<and> left (request get_user Map.empty Map.empty (fresh seed_db (Some 7))) =
     Throw (JsError ''Failed to deserialize user out of session'')
   \<and> sent (final (request get_user Map.empty Map.empty (fresh seed_db (Some 7)))) = None
   \<and> sent (final (request get_user Map.empty Map.empty (fresh seed_db None))) =
       Some \<lparr>statusCode = 401, status = ''Please log in''\<rparr>"
  by (simp add: request_def passport_session_def deserializeUser_def where_id_first_def
        get_user_def route_def loginRequired_def status_json_def fresh_def seed_db_def
        jeremy_def kelly_def)

text \<open>
  Claim C8, amended: when the query for the session's user fails, \<open>deserializeUser\<close>
  reports the error with \<open>done(err, null)\<close> and the request ends with that error:
  no gate and no handler runs, nothing is answered by them, and the session stays as
  it is.
\<close>

theorem deserialization_error_ends_request:
  assumes "session w = Some su" and "\<not> online (db w)"
  shows "request rt b q w =
           \<lparr>handler_ran = False, left = Throw (DbError ''connection refused''), final = w\<rparr>"
proof -
  have "deserializeUser (db w) su = Done (Some (DbError ''connection refused'')) UserNull"
    using assms(2) by (simp add: deserializeUser_def where_id_first_def)
  then show ?thesis
    using assms(1) by (simp add: request_def passport_session_def)
qed

theorem deserialization_error_ends_request_witness:
  "request get_user Map.empty Map.empty (fresh (seed_db\<lparr>online := False\<rparr>) (Some 1)) =
     \<lparr>handler_ran = False, left = Throw (DbError ''connection refused''),
      final = fresh (seed_db\<lparr>online := False\<rparr>) (Some 1)\<rparr>"
proof -
  have s1: "session (fresh (seed_db\<lparr>online := False\<rparr>) (Some 1)) = Some 1"
    by (simp add: fresh_def)
  have off: "\<not> online (db (fresh (seed_db\<lparr>online := False\<rparr>) (Some 1)))"
    by (simp add: fresh_def)
  from deserialization_error_ends_request [OF s1 off, of get_user Map.empty Map.empty]
  show ?thesis .
qed

section \<open>The field the strategy reads\<close>

text \<open>
  Claim C10, as stated: with the options of \<open>auth/local.js\<close>, every anonymous login
  whose body has \<open>username\<close> and \<open>password\<close> but no \<open>email\<close> gets 404
  \<open>User not found\<close>. The strategy looks for \<open>email\<close> in the query string too: the
  login of \<open>jeremy\<close> sent to \<open>/auth/login?email=x\<close> has such a body, its credentials
  are complete, the callback is called with the request in front and never reports, and
  no response is sent.
\<close>

theorem login_with_query_email_counterexample:
  "body \<lparr>body = [''username'' \<mapsto> JString ''jeremy'', ''password'' \<mapsto> JString ''johnson123''],
         query = [''email'' \<mapsto> JString ''x''], user = None\<rparr> ''email'' = None
   \<and> sent (final (post_login options_local demo_bcrypt
        \<lparr>body = [''username'' \<mapsto> JString ''jeremy'', ''password'' \<mapsto> JString ''johnson123''],
         query = [''email'' \<mapsto> JString ''x''], user = None\<rparr> (fresh seed_db None)))
       = None
   \<and> left (post_login options_local demo_bcrypt
        \<lparr>body = [''username'' \<mapsto> JString ''jeremy'', ''password'' \<mapsto> JString ''johnson123''],
         query = [''email'' \<mapsto> JString ''x''], user = None\<rparr> (fresh seed_db None))
       = Rejected (TypeError ''done is not a function'')"
  by (simp add: post_login_def route_def loginRedirect_def login_handler_def authenticate_def
        options_local_def field_or_def credential_def lookup_def verify_shifted fresh_def)

text \<open>
  Claim C10, amended: with the options of \<open>auth/local.js\<close>, an anonymous login whose
  body has \<open>username\<close> and \<open>password\<close> but no \<open>email\<close>, and whose query string has no
  \<open>email\<close> either, gets 404 \<open>User not found\<close>, whatever the database holds: in the
  example the credentials are those of the seeded row of \<open>jeremy\<close>.
\<close>

theorem login_without_email_404:
  assumes "user rq = None" and "sent w = None"
    and "body rq ''username'' = Some u" and "body rq ''password'' = Some p"
    and "body rq ''email'' = None" and "query rq ''email'' = None"
  shows "post_login options_local bc rq w =
           \<lparr>handler_ran = True, left = End,
            final = w\<lparr>sent := Some \<lparr>statusCode = 404, status = ''User not found''\<rparr>\<rparr>\<rparr>"
  using assms
  by (simp add: post_login_def route_def loginRedirect_def login_handler_def
        authenticate_local_no_email login_fail_fresh)

theorem login_without_email_404_witness:
  "jeremy \<in> set (users seed_db)
   \<and> username jeremy = ''jeremy''
   \<and> comparePass demo_bcrypt ''johnson123'' (password jeremy)
   \<and> post_login options_local demo_bcrypt
        \<lparr>body = [''username'' \<mapsto> JString ''jeremy'', ''password'' \<mapsto> JString ''johnson123''],
         query = Map.empty, user = None\<rparr>
        (fresh seed_db None) =
       \<lparr>handler_ran = True, left = End,
        final = \<lparr>db = seed_db, session = None,
                 sent = Some \<lparr>statusCode = 404, status = ''User not found''\<rparr>\<rparr>\<rparr>"
  using login_without_email_404 [of
      "\<lparr>body = [''username'' \<mapsto> JString ''jeremy'', ''password'' \<mapsto> JString ''johnson123''],
        query = Map.empty, user = None\<rparr>"
      "fresh seed_db None" "JString ''jeremy''" "JString ''johnson123''" demo_bcrypt]
  by (simp add: fresh_def seed_db_def jeremy_def comparePass_def demo_bcrypt_def)

end
